theory Spec2Isabelle
  imports Main "HOL-Library.Sublist"
begin

section \<open>Data model of \<open>webcam.ts\<close> and \<open>types.ts\<close>\<close>

text \<open>
  \<open>types.ts\<close>: \<^verbatim>\<open>type FacingMode = "environment" | "user"\<close>, and the request
  specification handed to the platform's media-access call. The two keys of
  \<open>VideoConstraints\<close> are optional in the source, hence options here.
\<close>

datatype FacingMode = Environment | User

fun FacingMode_string :: "FacingMode \<Rightarrow> string" where
  "FacingMode_string Environment = ''environment''"
| "FacingMode_string User = ''user''"

record DeviceId =
  exact :: string

record VideoConstraints =
  video_facingMode :: "FacingMode option"
  video_deviceId :: "DeviceId option"

record MediaConstraints =
  video :: VideoConstraints
  audio :: bool

text \<open>
  The platform's objects, as far as the class reads or writes them. A device descriptor
  carries its kind (the DOM's \<^verbatim>\<open>"audioinput" | "audiooutput" | "videoinput"\<close>),
  label and device id. A stream is its identifier and the tracks \<open>getTracks()\<close> returns;
  a track is an object identity, and whether it has been halted is kept in the state
  (two streams may hold the same track).
\<close>

datatype MediaDeviceKind = Audioinput | Audiooutput | Videoinput

record MediaDeviceInfo =
  deviceId :: string
  kind :: MediaDeviceKind
  label :: string

type_synonym MediaStreamTrack = nat

record MediaStream =
  stream_id :: string
  getTracks :: "MediaStreamTrack list"

record HTMLVideoElement =
  width :: nat
  height :: nat
  scrollWidth :: nat
  scrollHeight :: nat
  srcObject :: "MediaStream option"
  style_transform :: string

datatype CanvasRenderingContext2D = CanvasRenderingContext2D

record HTMLCanvasElement =
  canvas_width :: nat
  canvas_height :: nat
  getContext_2d :: "CanvasRenderingContext2D option"

datatype HTMLAudioElement = HTMLAudioElement

datatype error = Error (message: string)

text \<open>
  Property assignments of the source are field updates of the state. Method calls on
  platform objects are recorded, in order, in the list \<open>calls\<close>.
\<close>

datatype call =
    GetUserMedia MediaConstraints
  | EnumerateDevices
  | TrackStop MediaStreamTrack
  | VideoPlay
  | AudioPlay
  | ContextTranslate nat nat
  | ContextScale int int
  | ContextClearRect nat nat nat nat
  | ContextDrawImage nat nat nat nat
  | ToDataURL string

text \<open>
  The answers of the platform: each may depend on the request and on every call made
  before it. A media or enumeration request is answered by a rejection (\<open>Inl\<close>) or a
  result (\<open>Inr\<close>).
\<close>

record Platform =
  getUserMedia :: "MediaConstraints \<Rightarrow> call list \<Rightarrow> error + MediaStream"
  enumerateDevices :: "call list \<Rightarrow> error + MediaDeviceInfo list"
  toDataURL :: "string \<Rightarrow> call list \<Rightarrow> string"

text \<open>
  The class \<open>Webcam\<close>: its seven fields (the three elements by value, with the properties
  the class touches), the set of tracks already halted, and the calls made so far.
\<close>

record Webcam =
  webcamElement :: HTMLVideoElement
  canvasElement :: "HTMLCanvasElement option"
  snapSoundElement :: "HTMLAudioElement option"
  facingMode :: FacingMode
  webcamList :: "MediaDeviceInfo list"
  streamList :: "MediaStream list"
  selectedDeviceId :: string
  endedTracks :: "MediaStreamTrack set"
  calls :: "call list"

section \<open>String operations used on labels\<close>

text \<open>
  Labels are modelled as ASCII strings: \<open>toLowerCase\<close> maps \<open>A\<close>..\<open>Z\<close> to \<open>a\<close>..\<open>z\<close> and
  leaves every other character alone; \<open>includes_str s sub\<close> is \<^verbatim>\<open>s.includes(sub)\<close>.
\<close>

definition toLowerCase_char :: "char \<Rightarrow> char" where
  "toLowerCase_char c =
     (let n = (of_char c :: nat) in if 65 \<le> n \<and> n \<le> 90 then char_of (n + 32) else c)"

definition toLowerCase :: "string \<Rightarrow> string" where
  "toLowerCase s = map toLowerCase_char s"

fun includes_str :: "string \<Rightarrow> string \<Rightarrow> bool" where
  "includes_str [] sub = (sub = [])"
| "includes_str (c # cs) sub = (prefix sub (c # cs) \<or> includes_str cs sub)"

section \<open>The methods of \<open>Webcam\<close>\<close>

text \<open>The constructor (lines 20 to 35). \<open>x || y\<close> on a number takes \<open>y\<close> when \<open>x\<close> is 0;
  the height written is \<open>width * (3 / 4)\<close>, which the element keeps as a whole number.\<close>

definition constructor ::
  "HTMLVideoElement \<Rightarrow> FacingMode \<Rightarrow> HTMLCanvasElement option \<Rightarrow> HTMLAudioElement option \<Rightarrow> Webcam"
where
  "constructor videoElement facingMode0 canvasElement0 snapSoundElement0 =
     (let v1 = videoElement\<lparr>width := (if width videoElement = 0 then 640 else width videoElement)\<rparr>;
          v2 = v1\<lparr>height := (if height v1 = 0 then width v1 * 3 div 4 else height v1)\<rparr>
      in \<lparr>webcamElement = v2,
          canvasElement = canvasElement0,
          snapSoundElement = snapSoundElement0,
          facingMode = facingMode0,
          webcamList = [],
          streamList = [],
          selectedDeviceId = [],
          endedTracks = {},
          calls = []\<rparr>)"

definition getFacingMode :: "Webcam \<Rightarrow> FacingMode" where
  "getFacingMode s = facingMode s"

definition setFacingMode :: "FacingMode \<Rightarrow> Webcam \<Rightarrow> Webcam" where
  "setFacingMode fm s = s\<lparr>facingMode := fm\<rparr>"

definition getWebcamList :: "Webcam \<Rightarrow> MediaDeviceInfo list" where
  "getWebcamList s = webcamList s"

definition getWebcamCount :: "Webcam \<Rightarrow> nat" where
  "getWebcamCount s = length (webcamList s)"

definition getSelectedDeviceId :: "Webcam \<Rightarrow> string" where
  "getSelectedDeviceId s = selectedDeviceId s"

text \<open>\<open>getVideoInputs\<close> (lines 89 to 103): the list is emptied, each video input is pushed
  in turn, a single camera forces the facing mode, and the stored list is returned.\<close>

definition pushVideoInput :: "MediaDeviceInfo \<Rightarrow> Webcam \<Rightarrow> Webcam" where
  "pushVideoInput mediaDevice s =
     (if kind mediaDevice = Videoinput
      then s\<lparr>webcamList := webcamList s @ [mediaDevice]\<rparr>
      else s)"

definition getVideoInputs :: "MediaDeviceInfo list \<Rightarrow> Webcam \<Rightarrow> MediaDeviceInfo list \<times> Webcam" where
  "getVideoInputs mediaDevices s =
     (let s1 = s\<lparr>webcamList := []\<rparr>;
          s2 = fold pushVideoInput mediaDevices s1;
          s3 = (if length (webcamList s2) = 1 then s2\<lparr>facingMode := User\<rparr> else s2)
      in (webcamList s3, s3))"

text \<open>\<open>getMediaConstraints\<close> (lines 110 to 123).\<close>

definition getMediaConstraints :: "Webcam \<Rightarrow> MediaConstraints" where
  "getMediaConstraints s =
     (let videoConstraints = \<lparr>video_facingMode = None, video_deviceId = None\<rparr>;
          videoConstraints' =
            (if selectedDeviceId s = []
             then videoConstraints\<lparr>video_facingMode := Some (facingMode s)\<rparr>
             else videoConstraints\<lparr>video_deviceId := Some \<lparr>exact = selectedDeviceId s\<rparr>\<rparr>)
      in \<lparr>video = videoConstraints', audio = False\<rparr>)"

text \<open>\<open>selectCamera\<close> (lines 130 to 141): the \<open>for\<close> loop with its \<open>break\<close>.\<close>

definition labelMatches :: "FacingMode \<Rightarrow> MediaDeviceInfo \<Rightarrow> bool" where
  "labelMatches fm webcam =
     (let label' = toLowerCase (label webcam)
      in (fm = User \<and> includes_str label' ''front'')
         \<or> (fm = Environment \<and> includes_str label' ''back''))"

fun selectCamera_loop :: "MediaDeviceInfo list \<Rightarrow> Webcam \<Rightarrow> Webcam" where
  "selectCamera_loop [] s = s"
| "selectCamera_loop (webcam # rest) s =
     (if labelMatches (facingMode s) webcam
      then s\<lparr>selectedDeviceId := deviceId webcam\<rparr>
      else selectCamera_loop rest s)"

definition selectCamera :: "Webcam \<Rightarrow> Webcam" where
  "selectCamera s = selectCamera_loop (webcamList s) s"

text \<open>\<open>flip\<close> (lines 148 to 152).\<close>

definition flip :: "Webcam \<Rightarrow> Webcam" where
  "flip s =
     (let s1 = s\<lparr>facingMode := (if facingMode s = User then Environment else User)\<rparr>;
          s2 = s1\<lparr>webcamElement := (webcamElement s1)\<lparr>style_transform := []\<rparr>\<rparr>
      in selectCamera s2)"

text \<open>\<open>stop\<close> (lines 233 to 239): the two nested \<open>forEach\<close>.\<close>

definition track_stop :: "MediaStreamTrack \<Rightarrow> Webcam \<Rightarrow> Webcam" where
  "track_stop track s =
     s\<lparr>endedTracks := insert track (endedTracks s), calls := calls s @ [TrackStop track]\<rparr>"

definition stop :: "Webcam \<Rightarrow> Webcam" where
  "stop s = fold (\<lambda>stream. fold track_stop (getTracks stream)) (streamList s) s"

text \<open>\<open>info\<close> (lines 193 to 202) and \<open>stream\<close> (lines 209 to 226). A promise that is
  rejected is \<open>Inl\<close>, one that is resolved is \<open>Inr\<close>; the state is returned in both cases.\<close>

definition info :: "Platform \<Rightarrow> Webcam \<Rightarrow> (error + MediaDeviceInfo list) \<times> Webcam" where
  "info p s =
     (let s1 = s\<lparr>calls := calls s @ [EnumerateDevices]\<rparr>
      in case enumerateDevices p (calls s) of
           Inl err \<Rightarrow> (Inl err, s1)
         | Inr devices \<Rightarrow>
             (let s2 = snd (getVideoInputs devices s1) in (Inr (webcamList s2), s2)))"

definition stream :: "Platform \<Rightarrow> Webcam \<Rightarrow> (error + FacingMode) \<times> Webcam" where
  "stream p s =
     (let constraints = getMediaConstraints s;
          s1 = s\<lparr>calls := calls s @ [GetUserMedia constraints]\<rparr>
      in case getUserMedia p constraints (calls s) of
           Inl err \<Rightarrow> (Inl err, s1)
         | Inr stream' \<Rightarrow>
             (let s2 = s1\<lparr>streamList := streamList s1 @ [stream']\<rparr>;
                  s3 = s2\<lparr>webcamElement := (webcamElement s2)\<lparr>srcObject := Some stream'\<rparr>\<rparr>;
                  s4 = (if facingMode s3 = User
                        then s3\<lparr>webcamElement :=
                                 (webcamElement s3)\<lparr>style_transform := ''scale(-1,1)''\<rparr>\<rparr>
                        else s3);
                  s5 = s4\<lparr>calls := calls s4 @ [VideoPlay]\<rparr>
              in (Inr (facingMode s5), s5)))"

text \<open>\<open>start\<close> (lines 165 to 186), one definition for each nested callback: what runs
  once the devices are enumerated, what runs once the first stream is acquired, and the
  body of the promise.\<close>

definition start_enumerated :: "Platform \<Rightarrow> bool \<Rightarrow> Webcam \<Rightarrow> (error + string) \<times> Webcam" where
  "start_enumerated p startStream s =
     (let s1 = selectCamera s
      in if startStream
         then (case stream p s1 of
                 (Inl err, s2) \<Rightarrow> (Inl err, s2)
               | (Inr _, s2) \<Rightarrow> (Inr (FacingMode_string (facingMode s2)), s2))
         else (Inr (selectedDeviceId s1), s1))"

definition start_acquired :: "Platform \<Rightarrow> bool \<Rightarrow> MediaStream \<Rightarrow> Webcam \<Rightarrow> (error + string) \<times> Webcam" where
  "start_acquired p startStream stream' s =
     (let s1 = s\<lparr>streamList := streamList s @ [stream']\<rparr>
      in case info p s1 of
           (Inl err, s2) \<Rightarrow> (Inl err, s2)
         | (Inr _, s2) \<Rightarrow> start_enumerated p startStream s2)"

definition start :: "Platform \<Rightarrow> bool \<Rightarrow> Webcam \<Rightarrow> (error + string) \<times> Webcam" where
  "start p startStream s =
     (let s1 = stop s;
          constraints = getMediaConstraints s1;
          s2 = s1\<lparr>calls := calls s1 @ [GetUserMedia constraints]\<rparr>
      in case getUserMedia p constraints (calls s1) of
           Inl err \<Rightarrow> (Inl err, s2)
         | Inr stream' \<Rightarrow> start_acquired p startStream stream' s2)"

text \<open>\<open>snap\<close> (lines 249 to 272). The thrown error is \<open>Inl\<close>.\<close>

definition snap :: "Platform \<Rightarrow> Webcam \<Rightarrow> (error + string) \<times> Webcam" where
  "snap p s =
     (let context = (case canvasElement s of None \<Rightarrow> None | Some canvas \<Rightarrow> getContext_2d canvas)
      in case (canvasElement s, context) of
           (Some canvas, Some _) \<Rightarrow>
             (let s1 = (case snapSoundElement s of
                          None \<Rightarrow> s
                        | Some _ \<Rightarrow> s\<lparr>calls := calls s @ [AudioPlay]\<rparr>);
                  canvas1 = canvas\<lparr>canvas_height := scrollHeight (webcamElement s1)\<rparr>;
                  canvas2 = canvas1\<lparr>canvas_width := scrollWidth (webcamElement s1)\<rparr>;
                  s2 = s1\<lparr>canvasElement := Some canvas2\<rparr>;
                  s3 = (if facingMode s2 = User
                        then s2\<lparr>calls := calls s2 @
                                 [ContextTranslate (canvas_width canvas2) 0, ContextScale (- 1) 1]\<rparr>
                        else s2);
                  s4 = s3\<lparr>calls := calls s3 @
                         [ContextClearRect 0 0 (canvas_width canvas2) (canvas_height canvas2),
                          ContextDrawImage 0 0 (canvas_width canvas2) (canvas_height canvas2)]\<rparr>;
                  s5 = s4\<lparr>calls := calls s4 @ [ToDataURL ''image/png'']\<rparr>
              in (Inr (toDataURL p ''image/png'' (calls s4)), s5))
         | _ \<Rightarrow> (Inl (Error ''Canvas element is missing.''), s))"

section \<open>Sequences of operations on a session\<close>

text \<open>
  The operations a caller can invoke on a session after constructing it, and the state
  each one leaves behind, whatever its outcome (resolved, rejected or thrown). The
  getters leave the state as it is and are left out.
\<close>

datatype operation =
    SetFacingMode FacingMode
  | GetVideoInputs "MediaDeviceInfo list"
  | SelectCamera
  | Flip
  | Start bool
  | Info
  | Stream
  | Stop
  | Snap

fun exec :: "Platform \<Rightarrow> operation \<Rightarrow> Webcam \<Rightarrow> Webcam" where
  "exec p (SetFacingMode fm) s = setFacingMode fm s"
| "exec p (GetVideoInputs mediaDevices) s = snd (getVideoInputs mediaDevices s)"
| "exec p SelectCamera s = selectCamera s"
| "exec p Flip s = flip s"
| "exec p (Start startStream) s = snd (start p startStream s)"
| "exec p Info s = snd (info p s)"
| "exec p Stream s = snd (stream p s)"
| "exec p Stop s = stop s"
| "exec p Snap s = snd (snap p s)"

definition run :: "Platform \<Rightarrow> operation list \<Rightarrow> Webcam \<Rightarrow> Webcam" where
  "run p ops s = fold (exec p) ops s"

text \<open>The operations whose body calls \<open>selectCamera\<close>.\<close>

fun runsSelection :: "operation \<Rightarrow> bool" where
  "runsSelection SelectCamera = True"
| "runsSelection Flip = True"
| "runsSelection (Start startStream) = True"
| "runsSelection other = False"

text \<open>A state as a matching scan leaves it: some stored label matches the facing mode,
  and the selected identifier is the device id of the first such entry.\<close>

definition selectionMatched :: "Webcam \<Rightarrow> bool" where
  "selectionMatched s =
     (case find (labelMatches (facingMode s)) (webcamList s) of
        None \<Rightarrow> False
      | Some webcam \<Rightarrow> selectedDeviceId s = deviceId webcam)"

section \<open>Concrete devices, sessions and platforms\<close>

definition frontCam :: MediaDeviceInfo where
  "frontCam = \<lparr>deviceId = ''cam-front'', kind = Videoinput, label = ''Front Camera''\<rparr>"

definition backCam :: MediaDeviceInfo where
  "backCam = \<lparr>deviceId = ''cam-back'', kind = Videoinput, label = ''Back Camera''\<rparr>"

definition usbCam :: MediaDeviceInfo where
  "usbCam = \<lparr>deviceId = ''cam-usb'', kind = Videoinput, label = ''USB Camera''\<rparr>"

definition anonymousFront :: MediaDeviceInfo where
  "anonymousFront = \<lparr>deviceId = [], kind = Videoinput, label = ''Front Camera''\<rparr>"

definition microphone :: MediaDeviceInfo where
  "microphone = \<lparr>deviceId = ''mic'', kind = Audioinput, label = ''Microphone''\<rparr>"

definition video0 :: HTMLVideoElement where
  "video0 = \<lparr>width = 0, height = 0, scrollWidth = 320, scrollHeight = 240,
             srcObject = None, style_transform = []\<rparr>"

definition canvasNoContext :: HTMLCanvasElement where
  "canvasNoContext = \<lparr>canvas_width = 300, canvas_height = 150, getContext_2d = None\<rparr>"

definition session0 :: Webcam where
  "session0 = constructor video0 Environment None None"

text \<open>A platform that grants every media request, with a stream of one fresh track, and
  enumerates a microphone and two cameras.\<close>

definition platform0 :: Platform where
  "platform0 =
     \<lparr>getUserMedia = (\<lambda>constraints log. Inr \<lparr>stream_id = ''stream'', getTracks = [length log]\<rparr>),
      enumerateDevices = (\<lambda>log. Inr [microphone, backCam, frontCam]),
      toDataURL = (\<lambda>type log. ''data:image/png;base64,'')\<rparr>"

text \<open>The same platform on a machine with no camera labelled as a back camera.\<close>

definition platform1 :: Platform where
  "platform1 = platform0\<lparr>enumerateDevices := (\<lambda>log. Inr [microphone, frontCam, usbCam])\<rparr>"

definition stream0 :: MediaStream where
  "stream0 = \<lparr>stream_id = ''stream'', getTracks = [0]\<rparr>"

definition stream2 :: MediaStream where
  "stream2 = \<lparr>stream_id = ''stream'', getTracks = [2]\<rparr>"

text \<open>A front-facing session after two successful calls of \<open>stream\<close>.\<close>

definition streaming0 :: Webcam where
  "streaming0 = snd (stream platform0 (snd (stream platform0 (setFacingMode User session0))))"

text \<open>A front-facing session just constructed; and, on the machine without a back camera,
  a session that was started without streaming (selecting the front camera) and then
  flipped to the rear-facing mode.\<close>

definition userSession0 :: Webcam where
  "userSession0 = constructor video0 User None None"

definition noBackSession :: Webcam where
  "noBackSession = flip (snd (start platform1 False userSession0))"

section \<open>Evaluating the concrete inputs\<close>

lemma session0_eq:
  "session0 =
     \<lparr>webcamElement = \<lparr>width = 640, height = 480, scrollWidth = 320, scrollHeight = 240,
                         srcObject = None, style_transform = []\<rparr>,
      canvasElement = None, snapSoundElement = None, facingMode = Environment,
      webcamList = [], streamList = [], selectedDeviceId = [], endedTracks = {}, calls = []\<rparr>"
  by (simp add: session0_def constructor_def video0_def Let_def)

lemma toLowerCase_examples:
  "toLowerCase ''Front Camera'' = ''front camera''"
  "toLowerCase ''Back Camera'' = ''back camera''"
  by code_simp+

lemma streaming0_eq:
  "streaming0 =
     session0\<lparr>facingMode := User,
              webcamElement := (webcamElement session0)\<lparr>srcObject := Some stream2,
                                                        style_transform := ''scale(-1,1)''\<rparr>,
              streamList := [stream0, stream2],
              calls := [GetUserMedia \<lparr>video = \<lparr>video_facingMode = Some User, video_deviceId = None\<rparr>, audio = False\<rparr>, VideoPlay,
                        GetUserMedia \<lparr>video = \<lparr>video_facingMode = Some User, video_deviceId = None\<rparr>, audio = False\<rparr>, VideoPlay]\<rparr>"
  by (simp add: streaming0_def stream_def platform0_def getMediaConstraints_def setFacingMode_def
        session0_eq stream0_def stream2_def Let_def)

section \<open>Enumeration: \<open>getVideoInputs\<close>\<close>

lemma fold_pushVideoInput:
  "fold pushVideoInput mediaDevices s =
     s\<lparr>webcamList := webcamList s @ filter (\<lambda>d. kind d = Videoinput) mediaDevices\<rparr>"
  by (induction mediaDevices arbitrary: s) (simp_all add: pushVideoInput_def)

lemma getVideoInputs_eq:
  "getVideoInputs mediaDevices s =
     (let videoInputs = filter (\<lambda>d. kind d = Videoinput) mediaDevices
      in (videoInputs,
          s\<lparr>webcamList := videoInputs,
            facingMode := (if length videoInputs = 1 then User else facingMode s)\<rparr>))"
  by (simp add: getVideoInputs_def fold_pushVideoInput Let_def)

text \<open>
  Claim C1. For every device list and every session, \<open>getVideoInputs\<close> returns, and
  stores as the camera list, exactly the entries of kind \<open>videoinput\<close> in their original
  order (the \<open>filter\<close> of the list); and when there is exactly one such entry the facing
  mode afterwards is \<open>User\<close>, whatever it was before.
\<close>

theorem getVideoInputs_filters:
  "fst (getVideoInputs mediaDevices s) = filter (\<lambda>d. kind d = Videoinput) mediaDevices
   \<and> webcamList (snd (getVideoInputs mediaDevices s)) = filter (\<lambda>d. kind d = Videoinput) mediaDevices
   \<and> (length (filter (\<lambda>d. kind d = Videoinput) mediaDevices) = 1
        \<longrightarrow> facingMode (snd (getVideoInputs mediaDevices s)) = User)"
  by (simp add: getVideoInputs_eq Let_def)

theorem getVideoInputs_filters_witness:
  "facingMode session0 = Environment
   \<and> length (filter (\<lambda>d. kind d = Videoinput) [microphone, backCam]) = 1
   \<and> fst (getVideoInputs [microphone, backCam] session0) = [backCam]
   \<and> webcamList (snd (getVideoInputs [microphone, backCam] session0)) = [backCam]
   \<and> facingMode (snd (getVideoInputs [microphone, backCam] session0)) = User"
  using getVideoInputs_filters [of "[microphone, backCam]" session0]
  by (simp add: session0_eq microphone_def backCam_def)

text \<open>
  Claim C10. When the number of video inputs is not 1, \<open>getVideoInputs\<close> leaves the facing
  mode as it was; for every device list it leaves the selected device identifier and the
  stream list as they were, and the state afterwards differs from the state before in
  the camera list and (for a single camera) the facing mode only.
\<close>

theorem getVideoInputs_frame:
  "(length (filter (\<lambda>d. kind d = Videoinput) mediaDevices) \<noteq> 1
      \<longrightarrow> facingMode (snd (getVideoInputs mediaDevices s)) = facingMode s)
   \<and> selectedDeviceId (snd (getVideoInputs mediaDevices s)) = selectedDeviceId s
   \<and> streamList (snd (getVideoInputs mediaDevices s)) = streamList s
   \<and> snd (getVideoInputs mediaDevices s) =
         s\<lparr>webcamList := filter (\<lambda>d. kind d = Videoinput) mediaDevices,
           facingMode := (if length (filter (\<lambda>d. kind d = Videoinput) mediaDevices) = 1
                          then User else facingMode s)\<rparr>"
  by (simp add: getVideoInputs_eq Let_def)

theorem getVideoInputs_frame_witness:
  "length (filter (\<lambda>d. kind d = Videoinput) [frontCam, microphone, backCam]) \<noteq> 1
   \<and> facingMode (snd (getVideoInputs [frontCam, microphone, backCam] session0)) = Environment
   \<and> selectedDeviceId (snd (getVideoInputs [frontCam, microphone, backCam] session0)) = []
   \<and> streamList (snd (getVideoInputs [frontCam, microphone, backCam] session0)) = []"
  using getVideoInputs_frame [of "[frontCam, microphone, backCam]" session0]
  by (simp add: session0_eq microphone_def backCam_def frontCam_def)

section \<open>The request specification: \<open>getMediaConstraints\<close>\<close>

text \<open>
  Claim C2. With an empty selected device identifier the video constraint carries the
  current facing mode and no device id; with a non-empty one it carries
  \<open>{exact: identifier}\<close> and no facing mode. The audio field is \<open>False\<close> in both cases, and
  exactly one of the two keys is present.
\<close>

theorem getMediaConstraints_keys:
  "getMediaConstraints s =
     (if selectedDeviceId s = []
      then \<lparr>video = \<lparr>video_facingMode = Some (facingMode s), video_deviceId = None\<rparr>,
            audio = False\<rparr>
      else \<lparr>video = \<lparr>video_facingMode = None,
                     video_deviceId = Some \<lparr>exact = selectedDeviceId s\<rparr>\<rparr>,
            audio = False\<rparr>)
   \<and> audio (getMediaConstraints s) = False
   \<and> (video_facingMode (video (getMediaConstraints s)) = None)
       \<noteq> (video_deviceId (video (getMediaConstraints s)) = None)"
  by (simp add: getMediaConstraints_def Let_def)

theorem getMediaConstraints_keys_witness:
  "getMediaConstraints session0 =
     \<lparr>video = \<lparr>video_facingMode = Some Environment, video_deviceId = None\<rparr>, audio = False\<rparr>
   \<and> getMediaConstraints (session0\<lparr>selectedDeviceId := ''cam-back''\<rparr>) =
     \<lparr>video = \<lparr>video_facingMode = None, video_deviceId = Some \<lparr>exact = ''cam-back''\<rparr>\<rparr>,
      audio = False\<rparr>"
  using getMediaConstraints_keys [of session0]
    getMediaConstraints_keys [of "session0\<lparr>selectedDeviceId := ''cam-back''\<rparr>"]
  by (simp add: session0_eq)

section \<open>Camera selection: \<open>selectCamera\<close> and \<open>flip\<close>\<close>

lemma includes_str_sublist: "includes_str s sub = sublist sub s"
  by (induction s) (auto simp: sublist_Cons_right)

lemma selectCamera_loop_find:
  "selectCamera_loop webcams s =
     (case find (labelMatches (facingMode s)) webcams of
        None \<Rightarrow> s
      | Some webcam \<Rightarrow> s\<lparr>selectedDeviceId := deviceId webcam\<rparr>)"
  by (induction webcams) simp_all

lemma labelMatches_sublist:
  "labelMatches fm webcam =
     sublist (case fm of User \<Rightarrow> ''front'' | Environment \<Rightarrow> ''back'') (toLowerCase (label webcam))"
  by (cases fm) (simp_all add: labelMatches_def includes_str_sublist)

text \<open>
  Claim C3. \<open>selectCamera\<close> sets the selected device identifier to the device id of the
  first entry of the stored list whose lower-cased label has \<open>front\<close> (facing mode \<open>User\<close>)
  or \<open>back\<close> (facing mode \<open>Environment\<close>) as a contiguous substring, and changes nothing
  else; when no label matches, the state, and so the identifier, is left as it was.
\<close>

theorem selectCamera_first_match:
  "selectCamera s =
     (case find (\<lambda>webcam. sublist (case facingMode s of User \<Rightarrow> ''front'' | Environment \<Rightarrow> ''back'')
                            (toLowerCase (label webcam)))
             (webcamList s) of
        None \<Rightarrow> s
      | Some webcam \<Rightarrow> s\<lparr>selectedDeviceId := deviceId webcam\<rparr>)"
proof -
  have "labelMatches (facingMode s) =
          (\<lambda>webcam. sublist (case facingMode s of User \<Rightarrow> ''front'' | Environment \<Rightarrow> ''back'')
                       (toLowerCase (label webcam)))"
    by (rule ext) (rule labelMatches_sublist)
  then show ?thesis
    by (simp add: selectCamera_def selectCamera_loop_find)
qed

theorem selectCamera_first_match_witness:
  "selectCamera (session0\<lparr>facingMode := User, webcamList := [backCam, frontCam]\<rparr>) =
     session0\<lparr>facingMode := User, webcamList := [backCam, frontCam],
              selectedDeviceId := ''cam-front''\<rparr>
   \<and> selectCamera (session0\<lparr>facingMode := Environment, webcamList := [frontCam],
                               selectedDeviceId := ''cam-front''\<rparr>) =
     session0\<lparr>facingMode := Environment, webcamList := [frontCam],
              selectedDeviceId := ''cam-front''\<rparr>"
  using selectCamera_first_match [of "session0\<lparr>facingMode := User, webcamList := [backCam, frontCam]\<rparr>"]
    selectCamera_first_match [of "session0\<lparr>facingMode := Environment, webcamList := [frontCam],
                               selectedDeviceId := ''cam-front''\<rparr>"]
  by (simp add: includes_str_sublist [symmetric] backCam_def frontCam_def toLowerCase_examples)

text \<open>
  Claim C4. \<open>flip\<close> toggles the facing mode, empties the style transform of the display
  target, and runs \<open>selectCamera\<close> on the camera list already stored. It makes no call on
  the platform (no enumeration, no media request, no track halted, no playback), and
  leaves the camera list, the stream list and the bound stream as they were.
\<close>

theorem flip_toggles:
  "flip s =
     selectCamera
       (s\<lparr>facingMode := (case facingMode s of User \<Rightarrow> Environment | Environment \<Rightarrow> User),
          webcamElement := (webcamElement s)\<lparr>style_transform := []\<rparr>\<rparr>)
   \<and> facingMode (flip s) = (case facingMode s of User \<Rightarrow> Environment | Environment \<Rightarrow> User)
   \<and> webcamElement (flip s) = (webcamElement s)\<lparr>style_transform := []\<rparr>
   \<and> webcamList (flip s) = webcamList s
   \<and> calls (flip s) = calls s
   \<and> endedTracks (flip s) = endedTracks s
   \<and> streamList (flip s) = streamList s"
  by (cases "facingMode s")
     (simp_all add: flip_def selectCamera_def selectCamera_loop_find Let_def split: option.split)

theorem flip_toggles_witness:
  "flip (session0\<lparr>facingMode := User, webcamList := [frontCam, backCam],
                 selectedDeviceId := ''cam-front''\<rparr>) =
     session0\<lparr>facingMode := Environment, webcamList := [frontCam, backCam],
              selectedDeviceId := ''cam-back''\<rparr>"
  using flip_toggles [of "session0\<lparr>facingMode := User, webcamList := [frontCam, backCam],
                                   selectedDeviceId := ''cam-front''\<rparr>"]
  by (simp add: selectCamera_def labelMatches_def backCam_def frontCam_def toLowerCase_examples
        session0_eq)

section \<open>Snapshots: \<open>snap\<close> without a drawing surface\<close>

text \<open>
  Claim C5. When the session has no canvas, or its canvas yields no 2D context, \<open>snap\<close>
  throws the error with message \<open>Canvas element is missing.\<close> and the state is the one
  before the call: no call was made on the platform (audio cue, transform, clearing,
  drawing, encoding) and no property was written.
\<close>

theorem snap_missing_canvas:
  assumes "canvasElement s = None
           \<or> (\<exists>canvas. canvasElement s = Some canvas \<and> getContext_2d canvas = None)"
  shows "snap p s = (Inl (Error ''Canvas element is missing.''), s)"
  using assms by (auto simp: snap_def)

theorem snap_missing_canvas_witness:
  "snap platform0 session0 = (Inl (Error ''Canvas element is missing.''), session0)
   \<and> snap platform0 (session0\<lparr>canvasElement := Some canvasNoContext,
                               snapSoundElement := Some HTMLAudioElement\<rparr>) =
       (Inl (Error ''Canvas element is missing.''),
        session0\<lparr>canvasElement := Some canvasNoContext, snapSoundElement := Some HTMLAudioElement\<rparr>)"
proof -
  have a: "canvasElement session0 = None
           \<or> (\<exists>canvas. canvasElement session0 = Some canvas \<and> getContext_2d canvas = None)"
    by (simp add: session0_eq)
  have b: "canvasElement (session0\<lparr>canvasElement := Some canvasNoContext,
                               snapSoundElement := Some HTMLAudioElement\<rparr>) = None
           \<or> (\<exists>canvas. canvasElement (session0\<lparr>canvasElement := Some canvasNoContext,
                               snapSoundElement := Some HTMLAudioElement\<rparr>) = Some canvas
                 \<and> getContext_2d canvas = None)"
    by (simp add: canvasNoContext_def)
  show ?thesis
    using snap_missing_canvas [OF a, of platform0] snap_missing_canvas [OF b, of platform0]
    by simp
qed

section \<open>Streams: \<open>stop\<close> and \<open>stream\<close>\<close>

lemma fold_track_stop:
  "fold track_stop tracks s =
     s\<lparr>endedTracks := endedTracks s \<union> set tracks, calls := calls s @ map TrackStop tracks\<rparr>"
  by (induction tracks arbitrary: s) (simp_all add: track_stop_def)

lemma fold_stream_stop:
  "fold (\<lambda>stream. fold track_stop (getTracks stream)) streams s =
     s\<lparr>endedTracks := endedTracks s \<union> set (concat (map getTracks streams)),
       calls := calls s @ map TrackStop (concat (map getTracks streams))\<rparr>"
  by (induction streams arbitrary: s) (simp_all add: fold_track_stop Un_assoc)

lemma stop_eq:
  "stop s =
     s\<lparr>endedTracks := endedTracks s \<union> set (concat (map getTracks (streamList s))),
       calls := calls s @ map TrackStop (concat (map getTracks (streamList s)))\<rparr>"
  by (simp add: stop_def fold_stream_stop)

text \<open>
  Claim C8. \<open>stop\<close> calls \<open>stop()\<close> on every track of every stream of the stream list, in
  order, so that all of them are halted afterwards, and changes nothing else: the stream
  list, facing mode, camera list and selected identifier are as before. A second \<open>stop\<close>
  right after the first halts no further track.
\<close>

theorem stop_halts_all_tracks:
  "stop s =
     s\<lparr>endedTracks := endedTracks s \<union> (\<Union>stream\<in>set (streamList s). set (getTracks stream)),
       calls := calls s @ map TrackStop (concat (map getTracks (streamList s)))\<rparr>
   \<and> (\<forall>stream\<in>set (streamList s). \<forall>track\<in>set (getTracks stream). track \<in> endedTracks (stop s))
   \<and> streamList (stop s) = streamList s
   \<and> facingMode (stop s) = facingMode s
   \<and> webcamList (stop s) = webcamList s
   \<and> selectedDeviceId (stop s) = selectedDeviceId s
   \<and> endedTracks (stop (stop s)) = endedTracks (stop s)"
proof -
  have "set (concat (map getTracks (streamList s))) =
          (\<Union>stream\<in>set (streamList s). set (getTracks stream))"
    by simp
  then show ?thesis
    by (auto simp: stop_eq)
qed

theorem stop_halts_all_tracks_witness:
  "streamList streaming0 = [stream0, stream2]
   \<and> endedTracks streaming0 = {}
   \<and> endedTracks (stop streaming0) = {0, 2}
   \<and> streamList (stop streaming0) = [stream0, stream2]
   \<and> endedTracks (stop (stop streaming0)) = {0, 2}"
  using stop_halts_all_tracks [of streaming0]
  by (auto simp: streaming0_eq session0_eq stream0_def stream2_def)

text \<open>
  Claim C7. Whenever \<open>stream\<close> resolves, the platform granted a stream for the current
  request specification; that stream is appended to the stream list (the entries before
  it unchanged) and bound as the source of the display target; the mirror transform
  \<open>scale(-1,1)\<close> is written to the display target when the facing mode is \<open>User\<close>, and the
  transform is left as it was otherwise; playback is begun after the request; and the
  value resolved is the facing mode of the session.
\<close>

theorem stream_success:
  assumes "stream p s = (Inr fm, s')"
  shows "\<exists>stream'. getUserMedia p (getMediaConstraints s) (calls s) = Inr stream'
           \<and> streamList s' = streamList s @ [stream']
           \<and> srcObject (webcamElement s') = Some stream'
           \<and> style_transform (webcamElement s') =
               (if facingMode s = User then ''scale(-1,1)'' else style_transform (webcamElement s))
           \<and> calls s' = calls s @ [GetUserMedia (getMediaConstraints s), VideoPlay]
           \<and> fm = facingMode s'
           \<and> s' = s\<lparr>webcamElement :=
                      (webcamElement s)
                        \<lparr>srcObject := Some stream',
                         style_transform :=
                           (if facingMode s = User then ''scale(-1,1)''
                            else style_transform (webcamElement s))\<rparr>,
                    streamList := streamList s @ [stream'],
                    calls := calls s @ [GetUserMedia (getMediaConstraints s), VideoPlay]\<rparr>"
  using assms by (auto simp: stream_def Let_def split: sum.splits if_splits)

theorem stream_success_witness:
  "stream platform0 (setFacingMode User session0) =
     (Inr User,
      session0\<lparr>facingMode := User,
               webcamElement := (webcamElement session0)\<lparr>srcObject := Some stream0,
                                                         style_transform := ''scale(-1,1)''\<rparr>,
               streamList := [stream0],
               calls := [GetUserMedia (getMediaConstraints (setFacingMode User session0)), VideoPlay]\<rparr>)"
proof -
  let ?s = "setFacingMode User session0"
  have resolved: "fst (stream platform0 ?s) = Inr User"
    by (simp add: stream_def platform0_def setFacingMode_def Let_def)
  then have run: "stream platform0 ?s = (Inr User, snd (stream platform0 ?s))"
    by (metis prod.collapse)
  from stream_success [OF run] obtain stream' where
    acquired: "getUserMedia platform0 (getMediaConstraints ?s) (calls ?s) = Inr stream'" and
    after: "snd (stream platform0 ?s) =
       ?s\<lparr>webcamElement :=
             (webcamElement ?s)
               \<lparr>srcObject := Some stream',
                style_transform :=
                  (if facingMode ?s = User then ''scale(-1,1)''
                   else style_transform (webcamElement ?s))\<rparr>,
           streamList := streamList ?s @ [stream'],
           calls := calls ?s @ [GetUserMedia (getMediaConstraints ?s), VideoPlay]\<rparr>"
    by blast
  from acquired have "stream' = stream0"
    by (simp add: platform0_def setFacingMode_def session0_eq stream0_def)
  with after resolved show ?thesis
    by (intro prod_eqI) (simp_all add: setFacingMode_def session0_eq)
qed

section \<open>Bring-up: \<open>start\<close>\<close>

lemma stop_frame:
  "streamList (stop s) = streamList s"
  "webcamElement (stop s) = webcamElement s"
  "selectedDeviceId (stop s) = selectedDeviceId s"
  "facingMode (stop s) = facingMode s"
  by (simp_all add: stop_eq)

lemma getMediaConstraints_stop: "getMediaConstraints (stop s) = getMediaConstraints s"
  by (simp add: stop_eq getMediaConstraints_def Let_def)

lemma stream_resolved:
  assumes "stream p s = (Inr fm, s')"
  shows "\<exists>stream'. getUserMedia p (getMediaConstraints s) (calls s) = Inr stream'
           \<and> fm = facingMode s
           \<and> s' = s\<lparr>webcamElement :=
                      (webcamElement s)
                        \<lparr>srcObject := Some stream',
                         style_transform :=
                           (if facingMode s = User then ''scale(-1,1)''
                            else style_transform (webcamElement s))\<rparr>,
                    streamList := streamList s @ [stream'],
                    calls := calls s @ [GetUserMedia (getMediaConstraints s), VideoPlay]\<rparr>"
  using assms by (auto simp: stream_def Let_def split: sum.splits if_splits)

lemma stream_frame:
  "facingMode (snd (stream p s)) = facingMode s"
  "webcamList (snd (stream p s)) = webcamList s"
  "selectedDeviceId (snd (stream p s)) = selectedDeviceId s"
  by (simp_all add: stream_def Let_def split: sum.splits)

lemma info_frame:
  "selectedDeviceId (snd (info p s)) = selectedDeviceId s"
  by (simp add: info_def getVideoInputs_eq Let_def split: sum.splits)

lemma selectCamera_eq:
  "selectCamera s =
     (case find (labelMatches (facingMode s)) (webcamList s) of
        None \<Rightarrow> s
      | Some webcam \<Rightarrow> s\<lparr>selectedDeviceId := deviceId webcam\<rparr>)"
  by (simp add: selectCamera_def selectCamera_loop_find)

lemma selectCamera_frame:
  "facingMode (selectCamera s) = facingMode s"
  "webcamList (selectCamera s) = webcamList s"
  "webcamElement (selectCamera s) = webcamElement s"
  "calls (selectCamera s) = calls s"
  "streamList (selectCamera s) = streamList s"
  by (simp_all add: selectCamera_eq split: option.splits)

lemma start_resolved:
  assumes "start p startStream s = (Inr r, s')"
  shows "\<exists>stream1 devices.
      getUserMedia p (getMediaConstraints s) (calls (stop s)) = Inr stream1
    \<and> enumerateDevices p (calls (stop s) @ [GetUserMedia (getMediaConstraints s)]) = Inr devices
    \<and> start_enumerated p startStream
         (snd (getVideoInputs devices
            ((stop s)\<lparr>streamList := streamList s @ [stream1],
                      calls := calls (stop s) @ [GetUserMedia (getMediaConstraints s), EnumerateDevices]\<rparr>)))
        = (Inr r, s')"
  using assms
  by (auto simp: start_def start_acquired_def info_def Let_def getMediaConstraints_stop stop_frame
           split: sum.splits prod.splits)

text \<open>
  Claim C6, as stated, at a concrete run. On a machine whose cameras are labelled
  \<open>Front Camera\<close> and \<open>USB Camera\<close>, a front-facing session is started without streaming
  (the front camera is selected) and flipped (no label contains \<open>back\<close>, the identifier
  stays). A second \<open>start(false)\<close> then matches no label, and resolves with the identifier
  \<open>cam-front\<close> kept from before, not with the empty string.
\<close>

theorem start_unmatched_counterexample:
  "find (labelMatches (facingMode (snd (start platform1 False noBackSession))))
        (webcamList (snd (start platform1 False noBackSession))) = None
   \<and> fst (start platform1 False noBackSession) = Inr ''cam-front''"
  by code_simp

text \<open>
  Claim C6, amended. Whenever \<open>start\<close> resolves, the first media request (made with the
  request specification of the session, after every track of the listed streams was
  halted) was granted, the device enumeration made after it succeeded, the devices were
  filtered into the camera list and \<open>selectCamera\<close> ran on the result; up to there the
  calls on the platform are, in this order, the track stops, the media request and the
  enumeration. Then \<open>start(true)\<close> is a resolved run of \<open>stream\<close> on the selected state: it
  binds a second stream to the display target, begins playback, and resolves with the
  facing mode. \<open>start(false)\<close> ends in the selected state, with the display target as it
  was before the call and no playback, and resolves with the selected device
  identifier: the device id of the first matching camera, or, when no label matched, the
  identifier held before the call (empty only if none was held).
\<close>

theorem start_success:
  assumes "start p startStream s = (Inr r, s')"
  shows "\<exists>stream1 devices.
      getUserMedia p (getMediaConstraints s) (calls (stop s)) = Inr stream1
    \<and> enumerateDevices p (calls (stop s) @ [GetUserMedia (getMediaConstraints s)]) = Inr devices
    \<and> (let enumerated =
              snd (getVideoInputs devices
                     ((stop s)\<lparr>streamList := streamList s @ [stream1],
                               calls := calls (stop s) @
                                 [GetUserMedia (getMediaConstraints s), EnumerateDevices]\<rparr>));
            selected = selectCamera enumerated
        in calls selected =
             calls s @ map TrackStop (concat (map getTracks (streamList s)))
               @ [GetUserMedia (getMediaConstraints s), EnumerateDevices]
           \<and> (if startStream
              then stream p selected = (Inr (facingMode selected), s')
                   \<and> r = FacingMode_string (facingMode s')
                   \<and> (\<exists>stream2. srcObject (webcamElement s') = Some stream2
                          \<and> streamList s' = streamList s @ [stream1, stream2])
                   \<and> calls s' = calls selected @ [GetUserMedia (getMediaConstraints selected), VideoPlay]
              else s' = selected
                   \<and> r = selectedDeviceId selected
                   \<and> r = (case find (labelMatches (facingMode selected)) (webcamList selected) of
                            None \<Rightarrow> selectedDeviceId s
                          | Some webcam \<Rightarrow> deviceId webcam)
                   \<and> webcamElement s' = webcamElement s
                   \<and> streamList s' = streamList s @ [stream1]))"
proof -
  from start_resolved [OF assms] obtain stream1 devices where
    acquire: "getUserMedia p (getMediaConstraints s) (calls (stop s)) = Inr stream1" and
    enumerate: "enumerateDevices p (calls (stop s) @ [GetUserMedia (getMediaConstraints s)]) = Inr devices" and
    rest: "start_enumerated p startStream
         (snd (getVideoInputs devices
            ((stop s)\<lparr>streamList := streamList s @ [stream1],
                      calls := calls (stop s) @ [GetUserMedia (getMediaConstraints s), EnumerateDevices]\<rparr>)))
        = (Inr r, s')"
    by blast
  define enumerated where "enumerated = snd (getVideoInputs devices
            ((stop s)\<lparr>streamList := streamList s @ [stream1],
                      calls := calls (stop s) @ [GetUserMedia (getMediaConstraints s), EnumerateDevices]\<rparr>))"
  define selected where "selected = selectCamera enumerated"
  have enumerated_fields:
    "calls enumerated = calls s @ map TrackStop (concat (map getTracks (streamList s)))
               @ [GetUserMedia (getMediaConstraints s), EnumerateDevices]"
    "selectedDeviceId enumerated = selectedDeviceId s"
    "webcamElement enumerated = webcamElement s"
    "streamList enumerated = streamList s @ [stream1]"
    by (simp_all add: enumerated_def getVideoInputs_eq Let_def stop_eq)
  have selected_calls: "calls selected =
      calls s @ map TrackStop (concat (map getTracks (streamList s)))
               @ [GetUserMedia (getMediaConstraints s), EnumerateDevices]"
    by (simp add: selected_def selectCamera_frame enumerated_fields)
  have selected_id: "selectedDeviceId selected =
      (case find (labelMatches (facingMode selected)) (webcamList selected) of
         None \<Rightarrow> selectedDeviceId s
       | Some webcam \<Rightarrow> deviceId webcam)"
    by (simp add: selected_def selectCamera_frame)
       (simp add: selectCamera_eq enumerated_fields split: option.splits)
  have branch: "if startStream
      then stream p selected = (Inr (facingMode selected), s')
           \<and> r = FacingMode_string (facingMode s')
           \<and> (\<exists>stream2. srcObject (webcamElement s') = Some stream2
                  \<and> streamList s' = streamList s @ [stream1, stream2])
           \<and> calls s' = calls selected @ [GetUserMedia (getMediaConstraints selected), VideoPlay]
      else s' = selected
           \<and> r = selectedDeviceId selected
           \<and> r = (case find (labelMatches (facingMode selected)) (webcamList selected) of
                    None \<Rightarrow> selectedDeviceId s
                  | Some webcam \<Rightarrow> deviceId webcam)
           \<and> webcamElement s' = webcamElement s
           \<and> streamList s' = streamList s @ [stream1]"
  proof (cases startStream)
    case False
    with rest have "s' = selected" "r = selectedDeviceId selected"
      by (auto simp: start_enumerated_def Let_def enumerated_def selected_def)
    with False selected_id show ?thesis
      by (simp add: selected_def selectCamera_frame enumerated_fields)
  next
    case True
    with rest obtain fm where streamed: "stream p selected = (Inr fm, s')"
      and r: "r = FacingMode_string (facingMode s')"
      by (auto simp: start_enumerated_def Let_def enumerated_def selected_def
               split: prod.splits sum.splits)
    from stream_resolved [OF streamed] obtain stream2 where
      fm: "fm = facingMode selected" and
      s': "s' = selected\<lparr>webcamElement :=
                      (webcamElement selected)
                        \<lparr>srcObject := Some stream2,
                         style_transform :=
                           (if facingMode selected = User then ''scale(-1,1)''
                            else style_transform (webcamElement selected))\<rparr>,
                    streamList := streamList selected @ [stream2],
                    calls := calls selected @ [GetUserMedia (getMediaConstraints selected), VideoPlay]\<rparr>"
      by blast
    have "streamList selected = streamList s @ [stream1]"
      by (simp add: selected_def selectCamera_frame enumerated_fields)
    with True streamed fm r s' show ?thesis
      by auto
  qed
  from acquire enumerate selected_calls branch show ?thesis
    unfolding Let_def enumerated_def selected_def
    by blast
qed

theorem start_success_witness:
  "start platform0 False session0 = (Inr ''cam-back'', snd (start platform0 False session0))
   \<and> selectedDeviceId (snd (start platform0 False session0)) = ''cam-back''
   \<and> webcamElement (snd (start platform0 False session0)) = webcamElement session0
   \<and> start platform0 True session0 = (Inr ''environment'', snd (start platform0 True session0))
   \<and> facingMode (snd (start platform0 True session0)) = Environment
   \<and> srcObject (webcamElement (snd (start platform0 True session0))) \<noteq> None"
proof -
  have "fst (start platform0 False session0) = Inr ''cam-back''"
    by code_simp
  then have run_false:
    "start platform0 False session0 = (Inr ''cam-back'', snd (start platform0 False session0))"
    by (metis prod.collapse)
  have "fst (start platform0 True session0) = Inr ''environment''"
    by code_simp
  then have run_true:
    "start platform0 True session0 = (Inr ''environment'', snd (start platform0 True session0))"
    by (metis prod.collapse)
  have false_facts:
    "selectedDeviceId (snd (start platform0 False session0)) = ''cam-back''
     \<and> webcamElement (snd (start platform0 False session0)) = webcamElement session0"
    using start_success [OF run_false] by (auto simp: Let_def)
  have true_facts:
    "facingMode (snd (start platform0 True session0)) = Environment
     \<and> srcObject (webcamElement (snd (start platform0 True session0))) \<noteq> None"
    using start_success [OF run_true]
    by (cases "facingMode (snd (start platform0 True session0))") (auto simp: Let_def)
  from run_false run_true false_facts true_facts show ?thesis
    by blast
qed

section \<open>The selected device identifier over sequences of operations\<close>

lemma selectionMatched_cong:
  assumes "facingMode s' = facingMode s" "webcamList s' = webcamList s"
    "selectedDeviceId s' = selectedDeviceId s"
  shows "selectionMatched s' = selectionMatched s"
  using assms by (simp add: selectionMatched_def split: option.splits)

lemma selectCamera_changes:
  "selectedDeviceId (selectCamera s) = selectedDeviceId s \<or> selectionMatched (selectCamera s)"
  by (cases "find (labelMatches (facingMode s)) (webcamList s)")
     (simp_all add: selectCamera_eq selectionMatched_def)

lemma flip_changes:
  "selectedDeviceId (flip s) = selectedDeviceId s \<or> selectionMatched (flip s)"
  using selectCamera_changes
    [of "s\<lparr>facingMode := (if facingMode s = User then Environment else User),
           webcamElement := (webcamElement s)\<lparr>style_transform := []\<rparr>\<rparr>"]
  by (simp add: flip_def Let_def)

lemma start_enumerated_changes:
  "selectedDeviceId (snd (start_enumerated p startStream s)) = selectedDeviceId s
   \<or> selectionMatched (snd (start_enumerated p startStream s))"
proof (cases startStream)
  case False
  then show ?thesis
    using selectCamera_changes [of s] by (simp add: start_enumerated_def Let_def)
next
  case True
  then have "snd (start_enumerated p startStream s) = snd (stream p (selectCamera s))"
    by (simp add: start_enumerated_def Let_def split: prod.splits sum.splits)
  then show ?thesis
    using selectCamera_changes [of s]
      selectionMatched_cong [of "snd (stream p (selectCamera s))" "selectCamera s"]
    by (auto simp: stream_frame)
qed

lemma start_changes:
  "selectedDeviceId (snd (start p startStream s)) = selectedDeviceId s
   \<or> selectionMatched (snd (start p startStream s))"
proof (cases "getUserMedia p (getMediaConstraints (stop s)) (calls (stop s))")
  case (Inl err)
  then show ?thesis
    by (simp add: start_def Let_def stop_frame)
next
  case (Inr stream')
  define acquired where "acquired =
    (stop s)\<lparr>calls := calls (stop s) @ [GetUserMedia (getMediaConstraints (stop s))],
             streamList := streamList (stop s) @ [stream']\<rparr>"
  have acquired_id: "selectedDeviceId acquired = selectedDeviceId s"
    by (simp add: acquired_def stop_frame)
  obtain outcome enumerated where info: "info p acquired = (outcome, enumerated)"
    by (cases "info p acquired")
  then have enumerated: "enumerated = snd (info p acquired)"
    by simp
  show ?thesis
  proof (cases outcome)
    case (Inl err)
    with info Inr have "snd (start p startStream s) = enumerated"
      by (simp add: start_def start_acquired_def acquired_def Let_def)
    then show ?thesis
      by (simp add: enumerated info_frame acquired_id)
  next
    case (Inr devices)
    with info \<open>getUserMedia p (getMediaConstraints (stop s)) (calls (stop s)) = Inr stream'\<close>
    have "snd (start p startStream s) = snd (start_enumerated p startStream enumerated)"
      by (simp add: start_def start_acquired_def acquired_def Let_def)
    then show ?thesis
      using start_enumerated_changes [of p startStream enumerated]
      by (simp add: enumerated info_frame acquired_id)
  qed
qed

lemma snap_frame: "selectedDeviceId (snd (snap p s)) = selectedDeviceId s"
  by (simp add: snap_def Let_def split: option.splits)

lemma exec_changes:
  "selectedDeviceId (exec p op s) = selectedDeviceId s
   \<or> runsSelection op \<and> selectionMatched (exec p op s)"
proof (cases op)
  case (SetFacingMode fm)
  then show ?thesis by (simp add: setFacingMode_def)
next
  case (GetVideoInputs mediaDevices)
  then show ?thesis by (simp add: getVideoInputs_eq Let_def)
next
  case SelectCamera
  then show ?thesis using selectCamera_changes [of s] by simp
next
  case Flip
  then show ?thesis using flip_changes [of s] by simp
next
  case (Start startStream)
  then show ?thesis using start_changes [of p startStream s] by simp
next
  case Info
  then show ?thesis by (simp add: info_frame)
next
  case Stream
  then show ?thesis by (simp add: stream_frame)
next
  case Stop
  then show ?thesis by (simp add: stop_frame)
next
  case Snap
  then show ?thesis by (simp add: snap_frame)
qed

lemma run_snoc: "run p (ops @ [op]) s = exec p op (run p ops s)"
  by (simp add: run_def)

lemma run_matched:
  "selectedDeviceId (run p ops s) \<noteq> selectedDeviceId s \<Longrightarrow>
     \<exists>before op after.
        ops = before @ op # after \<and> runsSelection op
        \<and> selectionMatched (run p (before @ [op]) s)
        \<and> selectedDeviceId (run p (before @ [op]) s) = selectedDeviceId (run p ops s)"
proof (induction ops rule: rev_induct)
  case Nil
  then show ?case by (simp add: run_def)
next
  case (snoc op ops)
  show ?case
  proof (cases "selectedDeviceId (exec p op (run p ops s)) = selectedDeviceId (run p ops s)")
    case True
    with snoc.prems have "selectedDeviceId (run p ops s) \<noteq> selectedDeviceId s"
      by (simp add: run_snoc)
    from snoc.IH [OF this] obtain before op' after where
      split: "ops = before @ op' # after" and
      selecting: "runsSelection op'" and
      matched: "selectionMatched (run p (before @ [op']) s)" and
      kept: "selectedDeviceId (run p (before @ [op']) s) = selectedDeviceId (run p ops s)"
      by blast
    from split have "ops @ [op] = before @ op' # (after @ [op])"
      by simp
    moreover from kept True
    have "selectedDeviceId (run p (before @ [op']) s) = selectedDeviceId (run p (ops @ [op]) s)"
      by (simp only: run_snoc)
    ultimately show ?thesis
      using selecting matched by blast
  next
    case False
    with exec_changes [of p op "run p ops s"]
    have "runsSelection op \<and> selectionMatched (run p (ops @ [op]) s)"
      by (simp add: run_snoc)
    then have "ops @ [op] = ops @ op # [] \<and> runsSelection op
        \<and> selectionMatched (run p (ops @ [op]) s)
        \<and> selectedDeviceId (run p (ops @ [op]) s) = selectedDeviceId (run p (ops @ [op]) s)"
      by simp
    then show ?thesis by blast
  qed
qed

text \<open>
  Claim C9, as stated, at a concrete run. A front-facing session enumerates one camera
  labelled \<open>Front Camera\<close> and selects it: the identifier is \<open>cam-front\<close>. It then
  enumerates a camera with the same label and an empty device id, and selects again: the
  label matches, and the identifier is the empty string again.
\<close>

theorem selectedDeviceId_cleared_counterexample:
  "selectedDeviceId (run platform0 [GetVideoInputs [frontCam], SelectCamera]
                       userSession0) = ''cam-front''
   \<and> selectedDeviceId (run platform0 [GetVideoInputs [frontCam], SelectCamera,
                                      GetVideoInputs [anonymousFront], SelectCamera]
                         userSession0) = []"
  by code_simp

text \<open>
  Claim C9, amended. The selected device identifier is empty at construction. An
  operation changes it only if it runs \<open>selectCamera\<close> (directly, or inside \<open>flip\<close> or
  \<open>start\<close>) and the scan matched a label: the state it leaves has a matching entry, and
  the identifier is the device id of the first one. So along every sequence of
  operations from construction, a non-empty identifier was stored by an earlier
  operation whose selection matched. Nothing else changes the identifier, also not back
  to empty; a match on an entry whose device id is empty does store the empty id.
\<close>

theorem selectedDeviceId_only_by_match:
  "selectedDeviceId (constructor videoElement fm canvas sound) = []
   \<and> (selectedDeviceId (exec p op s) \<noteq> selectedDeviceId s
        \<longrightarrow> runsSelection op \<and> selectionMatched (exec p op s))
   \<and> (selectedDeviceId (run p ops (constructor videoElement fm canvas sound)) \<noteq> []
        \<longrightarrow> (\<exists>before op' after.
               ops = before @ op' # after \<and> runsSelection op'
               \<and> selectionMatched (run p (before @ [op']) (constructor videoElement fm canvas sound))
               \<and> selectedDeviceId (run p (before @ [op']) (constructor videoElement fm canvas sound))
                   = selectedDeviceId (run p ops (constructor videoElement fm canvas sound))))"
proof -
  have initial: "selectedDeviceId (constructor videoElement fm canvas sound) = []"
    by (simp add: constructor_def Let_def)
  have step: "selectedDeviceId (exec p op s) \<noteq> selectedDeviceId s
        \<longrightarrow> runsSelection op \<and> selectionMatched (exec p op s)"
    using exec_changes [of p op s] by blast
  have history: "selectedDeviceId (run p ops (constructor videoElement fm canvas sound)) \<noteq> []
        \<longrightarrow> (\<exists>before op' after.
               ops = before @ op' # after \<and> runsSelection op'
               \<and> selectionMatched (run p (before @ [op']) (constructor videoElement fm canvas sound))
               \<and> selectedDeviceId (run p (before @ [op']) (constructor videoElement fm canvas sound))
                   = selectedDeviceId (run p ops (constructor videoElement fm canvas sound)))"
    using run_matched [of p ops "constructor videoElement fm canvas sound"] initial by simp
  from initial step history show ?thesis
    by blast
qed

theorem selectedDeviceId_only_by_match_witness:
  "selectedDeviceId (exec platform0 (Start False) userSession0) \<noteq> selectedDeviceId userSession0
   \<and> runsSelection (Start False)
   \<and> selectionMatched (exec platform0 (Start False) userSession0)
   \<and> selectedDeviceId (run platform0 [Stop, Start False, Snap] userSession0) \<noteq> []
   \<and> (\<exists>before op' after.
         [Stop, Start False, Snap] = before @ op' # after \<and> runsSelection op'
         \<and> selectionMatched (run platform0 (before @ [op']) userSession0)
         \<and> selectedDeviceId (run platform0 (before @ [op']) userSession0)
             = selectedDeviceId (run platform0 [Stop, Start False, Snap] userSession0))"
proof -
  have changed:
    "selectedDeviceId (exec platform0 (Start False) userSession0) \<noteq> selectedDeviceId userSession0"
    by code_simp
  have selected: "selectedDeviceId (run platform0 [Stop, Start False, Snap] userSession0) \<noteq> []"
    by code_simp
  from changed selected
    selectedDeviceId_only_by_match
      [where videoElement = video0 and fm = User and canvas = None and sound = None
         and p = platform0 and op = "Start False" and s = userSession0
         and ops = "[Stop, Start False, Snap]"]
  show ?thesis
    unfolding userSession0_def by simp
qed

end
